theory Spec2Isabelle
  imports Main
begin

section \<open>The service broker (broker.go)\<close>

text \<open>
  The broker's operations are embedded as functions that take the broker and return it
  again next to their Go results, so that a change of the secret store behind the
  \<open>Vault\<close> pointer is visible. A Go result pair \<open>(value, err)\<close> is a pair whose second
  component is an \<open>error option\<close>; \<open>None\<close> is Go's \<open>nil\<close>. Logging (\<open>log.Printf\<close>,
  \<open>Debugf\<close>) has no effect on any result and is left out.
\<close>

subsection \<open>Values\<close>

text \<open>A Go \<open>error\<close> built by \<open>fmt.Errorf\<close>, identified by its message.\<close>

datatype error = Errorf string

text \<open>An \<open>interface{}\<close> value holding opaque credentials; \<open>None\<close> is \<open>nil\<close>.\<close>

type_synonym interface = "string option"

type_synonym TaskID = string

text \<open>
  \<open>Plan\<close> and \<open>Service\<close> are declared outside the two source files; the fields below
  are the ones the broker reads. \<open>zero_Plan\<close> is Go's \<open>Plan{}\<close>.
\<close>

record Plan =
  ID :: string
  Name :: string

definition zero_Plan :: Plan where
  "zero_Plan = \<lparr>Plan.ID = [], Plan.Name = []\<rparr>"

record Service =
  ID :: string
  Plans :: "Plan list"

text \<open>
  An entry of the published catalog (\<open>brokerapi.Service\<close>). The broker never inspects
  one; the string stands for its content.
\<close>

datatype brokerapi_Service = brokerapi_Service string

record ProvisionDetails =
  ServiceID :: string
  PlanID :: string

record DeprovisionDetails =
  PlanID :: string
  ServiceID :: string

record ProvisionedServiceSpec =
  IsAsync :: bool

record LastOperation =
  State :: string

record Binding =
  Credentials :: interface

subsection \<open>The deployment director (gogobosh.Client)\<close>

text \<open>
  The director is an external service. Its client is a table of the answers it gives;
  each broker operation asks each question at most once.
\<close>

record Info =
  UUID :: string

record Task =
  ID :: TaskID
  State :: string

record gogobosh_Client =
  GetInfo :: "Info \<times> error option"
  CreateDeployment :: "string \<Rightarrow> Task \<times> error option"
  DeleteDeployment :: "string \<Rightarrow> Task \<times> error option"
  GetTask :: "TaskID \<Rightarrow> Task \<times> error option"

subsection \<open>The secret store (Vault)\<close>

record OperationRecord =
  kind :: string
  taskID :: TaskID
  credentials :: interface

text \<open>
  The store holds at most one record per instance. \<open>put_error\<close> is the error with which
  the store answers a write, \<open>None\<close> while it accepts writes.
\<close>

record Vault =
  ledger :: "string \<rightharpoonup> OperationRecord"
  put_error :: "error option"

text \<open>
  Modelled from the spec: \<open>Vault.Track\<close> (vault.go is not among the source files). It is
  the Ledger's \<open>put(instanceID, Record) \<rightarrow> ok | Error\<close>: a new record overwrites any
  prior one; a failed write leaves the store as it was.
\<close>

definition Vault_Track ::
  "Vault \<Rightarrow> string \<Rightarrow> string \<Rightarrow> TaskID \<Rightarrow> interface \<Rightarrow> Vault \<times> error option" where
  "Vault_Track vault instanceID action task creds =
     (case put_error vault of
        Some err \<Rightarrow> (vault, Some err)
      | None \<Rightarrow>
          (vault\<lparr>ledger := (ledger vault)(instanceID \<mapsto>
              \<lparr>kind = action, taskID = task, credentials = creds\<rparr>)\<rparr>, None))"

text \<open>
  Modelled from the spec: \<open>Vault.State\<close> (vault.go is not among the source files). It is
  the Ledger's \<open>get(instanceID) \<rightarrow> Record | NotFound\<close>, returning the record's kind,
  task and credentials; without a record the three values are Go's zero values and
  the error is set.
\<close>

definition Vault_State :: "Vault \<Rightarrow> string \<Rightarrow> string \<times> TaskID \<times> interface \<times> error option" where
  "Vault_State vault instanceID =
     (case ledger vault instanceID of
        None \<Rightarrow> ([], [], None, Some (Errorf ''not found''))
      | Some r \<Rightarrow> (kind r, taskID r, credentials r, None))"

text \<open>
  Modelled from the spec: \<open>Vault.Clear\<close> (vault.go is not among the source files). It is
  the Ledger's delete, the side effect \<open>delete Ledger record\<close> of the status table. The
  broker calls it as a statement and sees no result of it.
\<close>

definition Vault_Clear :: "Vault \<Rightarrow> string \<Rightarrow> Vault" where
  "Vault_Clear vault instanceID = vault\<lparr>ledger := (ledger vault)(instanceID := None)\<rparr>"

subsection \<open>The broker\<close>

record Broker =
  Catalog :: "brokerapi_Service list"
  Plans :: "string \<rightharpoonup> Plan"
  BOSH :: gogobosh_Client
  Vault :: Vault

text \<open>\<open>fmt.Sprintf("%s/%s", a, b)\<close>\<close>

definition Sprintf_slash :: "string \<Rightarrow> string \<Rightarrow> string" where
  "Sprintf_slash a b = a @ ''/'' @ b"

definition FindPlan :: "Broker \<Rightarrow> string \<Rightarrow> string \<Rightarrow> Plan \<times> error option" where
  "FindPlan b planID serviceID =
     (let key = Sprintf_slash planID serviceID in
      case Broker.Plans b key of
        Some plan \<Rightarrow> (plan, None)
      | None \<Rightarrow> (zero_Plan, Some (Errorf (''plan '' @ key @ '' not found''))))"

text \<open>
  The method \<open>ReadServices\<close>. The package's function of the same name, which parses
  the service files, and \<open>Catalog\<close>, which converts the services for publication, are
  declared outside the two source files and are the parameters \<open>read\<close> and
  \<open>catalog\<close>. The inner loop over the plans of a service and the outer loop over the
  services are the two recursions below, in the order of the slices.
\<close>

fun track_plans :: "Service \<Rightarrow> Plan list \<Rightarrow> (string \<rightharpoonup> Plan) \<Rightarrow> (string \<rightharpoonup> Plan)" where
  "track_plans s [] plans = plans"
| "track_plans s (p # ps) plans =
     track_plans s ps (plans(Sprintf_slash (Service.ID s) (Plan.ID p) \<mapsto> p))"

fun track_services :: "Service list \<Rightarrow> (string \<rightharpoonup> Plan) \<Rightarrow> (string \<rightharpoonup> Plan)" where
  "track_services [] plans = plans"
| "track_services (s # ss) plans = track_services ss (track_plans s (Service.Plans s) plans)"

definition ReadServices ::
  "('dir \<Rightarrow> Service list \<times> error option) \<Rightarrow> (Service list \<Rightarrow> brokerapi_Service list) \<Rightarrow>
   Broker \<Rightarrow> 'dir \<Rightarrow> Broker \<times> error option" where
  "ReadServices read catalog b dir =
     (let (ss, err) = read dir in
      if err \<noteq> None then (b, err)
      else (b\<lparr>Catalog := catalog ss, Plans := track_services ss Map.empty\<rparr>, None))"

text \<open>
  \<open>Provision\<close>. \<open>GenManifest\<close> is declared outside the two source files and is a
  parameter: from the plan and the parameters it gives the manifest, the credentials
  and an error.
\<close>

definition Provision ::
  "(Plan \<Rightarrow> (string \<rightharpoonup> string) \<Rightarrow> string \<times> interface \<times> error option) \<Rightarrow>
   Broker \<Rightarrow> string \<Rightarrow> ProvisionDetails \<Rightarrow> bool \<Rightarrow>
   Broker \<times> ProvisionedServiceSpec \<times> error option" where
  "Provision GenManifest b instanceID details asyncAllowed =
     (let spec = \<lparr>IsAsync = True\<rparr>;
          (plan, err) = FindPlan b (ProvisionDetails.ServiceID details)
                          (ProvisionDetails.PlanID details) in
      if err \<noteq> None then (b, spec, err)
      else
        let params = [''name'' \<mapsto> Plan.Name plan @ ''-'' @ instanceID];
            (info, err) = GetInfo (BOSH b) in
        if err \<noteq> None
        then (b, spec, Some (Errorf ''BOSH deployment manifest generation failed''))
        else
          let params = params(''director_uuid'' \<mapsto> UUID info);
              (manifest, creds, err) = GenManifest plan params in
          if err \<noteq> None
          then (b, spec, Some (Errorf ''BOSH deployment manifest generation failed''))
          else
            let (task, err) = CreateDeployment (BOSH b) manifest in
            if err \<noteq> None
            then (b, spec, Some (Errorf ''backend BOSH deployment failed''))
            else
              let (vault, err) =
                    Vault_Track (Vault b) instanceID ''provision'' (Task.ID task) creds in
              if err \<noteq> None
              then (b\<lparr>Vault := vault\<rparr>, spec, Some (Errorf ''Vault tracking failed''))
              else (b\<lparr>Vault := vault\<rparr>, spec, None))"

text \<open>\<open>Deprovision\<close> drops the error of \<open>Vault.Track\<close>.\<close>

definition Deprovision ::
  "Broker \<Rightarrow> string \<Rightarrow> 'details \<Rightarrow> bool \<Rightarrow> Broker \<times> bool \<times> error option" where
  "Deprovision b instanceID details asyncAllowed =
     (let (task, err) = DeleteDeployment (BOSH b) instanceID in
      if err \<noteq> None then (b, True, err)
      else
        let (vault, _) =
              Vault_Track (Vault b) instanceID ''deprovision'' (Task.ID task) None in
        (b\<lparr>Vault := vault\<rparr>, True, None))"

text \<open>
  \<open>LastOperation\<close>. The error of \<open>Vault.State\<close> is dropped; \<open>LastOperation{}\<close> has the
  empty state. The message of the last error quotes the kind between two \<open>'\<close>.
\<close>

definition LastOperation ::
  "Broker \<Rightarrow> string \<Rightarrow> Broker \<times> LastOperation \<times> error option" where
  "LastOperation b instanceID =
     (let (typ, taskID, _, _) = Vault_State (Vault b) instanceID in
      if typ = ''provision'' then
        (let (task, err) = GetTask (BOSH b) taskID in
         if err \<noteq> None
         then (b, \<lparr>LastOperation.State = []\<rparr>, Some (Errorf ''unrecognized backend BOSH task''))
         else if Task.State task = ''done'' then (b, \<lparr>LastOperation.State = ''succeeded''\<rparr>, None)
         else if Task.State task = ''error'' then (b, \<lparr>LastOperation.State = ''failed''\<rparr>, None)
         else (b, \<lparr>LastOperation.State = ''in progress''\<rparr>, None))
      else if typ = ''deprovision'' then
        (let (task, err) = GetTask (BOSH b) taskID in
         if err \<noteq> None
         then (b, \<lparr>LastOperation.State = []\<rparr>, Some (Errorf ''unrecognized backend BOSH task''))
         else if Task.State task = ''done''
         then (b\<lparr>Vault := Vault_Clear (Vault b) instanceID\<rparr>, \<lparr>LastOperation.State = ''succeeded''\<rparr>, None)
         else if Task.State task = ''error''
         then (b\<lparr>Vault := Vault_Clear (Vault b) instanceID\<rparr>, \<lparr>LastOperation.State = ''failed''\<rparr>, None)
         else (b, \<lparr>LastOperation.State = ''in progress''\<rparr>, None))
      else
        (b, \<lparr>LastOperation.State = []\<rparr>,
         Some (Errorf (''invalid state type '' @ [CHR 0x27] @ typ @ [CHR 0x27]))))"

text \<open>\<open>Bind\<close> drops the error of \<open>Vault.State\<close> and never inspects the details.\<close>

definition Bind ::
  "Broker \<Rightarrow> string \<Rightarrow> string \<Rightarrow> 'details \<Rightarrow> Broker \<times> Binding \<times> error option" where
  "Bind b instanceID bindingID details =
     (let (_, _, creds, _) = Vault_State (Vault b) instanceID in
      (b, \<lparr>Credentials = creds\<rparr>, None))"

definition Unbind :: "Broker \<Rightarrow> string \<Rightarrow> string \<Rightarrow> 'details \<Rightarrow> Broker \<times> error option" where
  "Unbind b instanceID bindingID details = (b, None)"

text \<open>
  \<open>Update\<close> reads neither the broker nor its arguments; the details are of any type.
\<close>

definition Update :: "Broker \<Rightarrow> string \<Rightarrow> 'details \<Rightarrow> bool \<Rightarrow> Broker \<times> bool \<times> error option" where
  "Update b instanceID details asyncAllowed = (b, False, Some (Errorf ''not implemented''))"

section \<open>The backup scheduler client (shield/shield.go)\<close>

text \<open>
  The SHIELD server is an external service, reached through \<open>shield.Client\<close>. The client
  is a table of the answers the server gives; \<open>DeleteSchedule\<close> puts each request at
  most once. What \<open>DeleteSchedule\<close> does to the server is the list of the requests it
  sent, in the order it sent them. \<open>FindJob\<close> answers with a pointer, \<open>None\<close> for \<open>nil\<close>,
  and an error; of the answers to the two deletions only the error is read.
\<close>

record Tenant =
  UUID :: string

record Store =
  UUID :: string

record Target =
  UUID :: string

record Job =
  UUID :: string
  Target :: Target

record shield_Client =
  FindJob :: "Tenant \<Rightarrow> string \<Rightarrow> bool \<Rightarrow> Job option \<times> error option"
  DeleteTarget :: "Tenant \<Rightarrow> Target \<Rightarrow> error option"
  DeleteJob :: "Tenant \<Rightarrow> Job \<Rightarrow> error option"

record NetworkClient =
  shield :: shield_Client
  tenant :: Tenant
  store :: Store
  schedule :: string
  retain :: string
  enabledOnTargets :: "string list"

datatype request =
    FindJob_request Tenant string bool
  | DeleteTarget_request Tenant Target
  | DeleteJob_request Tenant Job

text \<open>
  A call returns its error, or panics: reading \<open>job.Target.UUID\<close> through a \<open>nil\<close>
  pointer is a run-time panic in Go.
\<close>

datatype outcome = Return "error option" | Panic

text \<open>\<open>strings.Join(s, ":")\<close>\<close>

fun join :: "string list \<Rightarrow> string" where
  "join [] = []"
| "join [x] = x"
| "join (x # y # ys) = x @ '':'' @ join (y # ys)"

definition DeleteSchedule ::
  "NetworkClient \<Rightarrow> string \<Rightarrow> DeprovisionDetails \<Rightarrow> request list \<times> outcome" where
  "DeleteSchedule cli instanceID details =
     (let name = join [''jobs'', DeprovisionDetails.ServiceID details,
                       DeprovisionDetails.PlanID details, instanceID];
          find = FindJob_request (tenant cli) (''name='' @ name) False;
          (job, err) = FindJob (shield cli) (tenant cli) (''name='' @ name) False in
      if err \<noteq> None then ([find], Return err)
      else
        case job of
          None \<Rightarrow> ([find], Panic)
        | Some job \<Rightarrow>
            let target = \<lparr>Target.UUID = Target.UUID (Job.Target job)\<rparr>;
                err = DeleteTarget (shield cli) (tenant cli) target in
            if err \<noteq> None then ([find, DeleteTarget_request (tenant cli) target], Return err)
            else
              let job' = \<lparr>Job.UUID = Job.UUID job, Job.Target = \<lparr>Target.UUID = []\<rparr>\<rparr>;
                  err = DeleteJob (shield cli) (tenant cli) job' in
              if err \<noteq> None
              then ([find, DeleteTarget_request (tenant cli) target,
                     DeleteJob_request (tenant cli) job'], Return err)
              else ([find, DeleteTarget_request (tenant cli) target,
                     DeleteJob_request (tenant cli) job'], Return None))"

section \<open>Example values\<close>

text \<open>A director that answers every request, and one that cannot be reached.\<close>

definition director_up :: gogobosh_Client where
  "director_up =
     \<lparr>GetInfo = (\<lparr>Info.UUID = ''d1''\<rparr>, None),
      CreateDeployment = (\<lambda>manifest. (\<lparr>Task.ID = ''t1'', Task.State = ''queued''\<rparr>, None)),
      DeleteDeployment = (\<lambda>name. (\<lparr>Task.ID = ''t2'', Task.State = ''queued''\<rparr>, None)),
      GetTask = (\<lambda>t. (\<lparr>Task.ID = t,
                          Task.State = (if t = ''t1'' then ''done'' else ''error'')\<rparr>, None))\<rparr>"

definition director_down :: gogobosh_Client where
  "director_down =
     \<lparr>GetInfo = (\<lparr>Info.UUID = []\<rparr>, Some (Errorf ''connection refused'')),
      CreateDeployment =
        (\<lambda>manifest. (\<lparr>Task.ID = [], Task.State = []\<rparr>, Some (Errorf ''connection refused''))),
      DeleteDeployment =
        (\<lambda>name. (\<lparr>Task.ID = [], Task.State = []\<rparr>, Some (Errorf ''connection refused''))),
      GetTask =
        (\<lambda>t. (\<lparr>Task.ID = [], Task.State = []\<rparr>, Some (Errorf ''connection refused'')))\<rparr>"

definition plan_small :: Plan where
  "plan_small = \<lparr>Plan.ID = ''p1'', Plan.Name = ''small''\<rparr>"

definition vault_empty :: Vault where
  "vault_empty = \<lparr>ledger = Map.empty, put_error = None\<rparr>"

definition vault_sealed :: Vault where
  "vault_sealed = \<lparr>ledger = Map.empty, put_error = Some (Errorf ''vault is sealed'')\<rparr>"

definition broker_up :: Broker where
  "broker_up =
     \<lparr>Catalog = [], Plans = [''s1/p1'' \<mapsto> plan_small], BOSH = director_up,
      Vault = vault_empty\<rparr>"

definition GenManifest_ok :: "Plan \<Rightarrow> (string \<rightharpoonup> string) \<Rightarrow> string \<times> interface \<times> error option" where
  "GenManifest_ok plan params = (''manifest'', Some ''c1'', None)"

definition GenManifest_bad :: "Plan \<Rightarrow> (string \<rightharpoonup> string) \<Rightarrow> string \<times> interface \<times> error option" where
  "GenManifest_bad plan params = ([], None, Some (Errorf ''bad template''))"

definition details_s1_p1 :: ProvisionDetails where
  "details_s1_p1 = \<lparr>ProvisionDetails.ServiceID = ''s1'', ProvisionDetails.PlanID = ''p1''\<rparr>"

definition vault_provisioned :: Vault where
  "vault_provisioned =
     \<lparr>ledger = [''i1'' \<mapsto> \<lparr>kind = ''provision'', taskID = ''t1'', credentials = Some ''c1''\<rparr>],
      put_error = None\<rparr>"

definition vault_deprovisioned :: Vault where
  "vault_deprovisioned =
     \<lparr>ledger = [''i1'' \<mapsto> \<lparr>kind = ''deprovision'', taskID = ''t2'', credentials = None\<rparr>],
      put_error = None\<rparr>"

definition vault_garbled :: Vault where
  "vault_garbled =
     \<lparr>ledger = [''i1'' \<mapsto> \<lparr>kind = ''update'', taskID = ''t3'', credentials = None\<rparr>],
      put_error = None\<rparr>"

text \<open>A catalog of one service with one plan, and one whose service ID holds a \<open>/\<close>.\<close>

definition catalog_plain :: "Service list" where
  "catalog_plain = [\<lparr>Service.ID = ''s1'', Service.Plans = [plan_small]\<rparr>]"

definition catalog_slash :: "Service list" where
  "catalog_slash =
     [\<lparr>Service.ID = ''a/b'', Service.Plans = [\<lparr>Plan.ID = ''c'', Plan.Name = ''tiny''\<rparr>]\<rparr>]"

definition details_a_bc :: ProvisionDetails where
  "details_a_bc = \<lparr>ProvisionDetails.ServiceID = ''a'', ProvisionDetails.PlanID = ''b/c''\<rparr>"

definition details_s1_p2 :: ProvisionDetails where
  "details_s1_p2 = \<lparr>ProvisionDetails.ServiceID = ''s1'', ProvisionDetails.PlanID = ''p2''\<rparr>"

text \<open>A SHIELD server that knows the job, and one that does not find it.\<close>

definition shield_found :: shield_Client where
  "shield_found =
     \<lparr>FindJob = (\<lambda>t q fuzzy.
         (Some \<lparr>Job.UUID = ''j1'', Job.Target = \<lparr>Target.UUID = ''g1''\<rparr>\<rparr>, None)),
      DeleteTarget = (\<lambda>t g. None),
      DeleteJob = (\<lambda>t j. None)\<rparr>"

definition shield_missing :: shield_Client where
  "shield_missing =
     \<lparr>FindJob = (\<lambda>t q fuzzy. (None, Some (Errorf ''no matching job found''))),
      DeleteTarget = (\<lambda>t g. None),
      DeleteJob = (\<lambda>t j. None)\<rparr>"

definition shield_keeps_target :: shield_Client where
  "shield_keeps_target =
     \<lparr>FindJob = (\<lambda>t q fuzzy.
         (Some \<lparr>Job.UUID = ''j1'', Job.Target = \<lparr>Target.UUID = ''g1''\<rparr>\<rparr>, None)),
      DeleteTarget = (\<lambda>t g. Some (Errorf ''target is in use'')),
      DeleteJob = (\<lambda>t j. None)\<rparr>"

definition client_of :: "shield_Client \<Rightarrow> NetworkClient" where
  "client_of c =
     \<lparr>shield = c, tenant = \<lparr>Tenant.UUID = ''n1''\<rparr>, store = \<lparr>Store.UUID = ''o1''\<rparr>,
      schedule = ''daily 3am'', retain = ''7d'', enabledOnTargets = []\<rparr>"

definition details_teardown :: DeprovisionDetails where
  "details_teardown =
     \<lparr>DeprovisionDetails.PlanID = ''p1'', DeprovisionDetails.ServiceID = ''s1''\<rparr>"

section \<open>The catalog as a relation\<close>

text \<open>
  The catalog that was loaded contains a plan for a pair of identifiers when one of its
  services has the service identifier and one of that service's plans has the plan
  identifier.
\<close>

definition has_plan :: "Service list \<Rightarrow> string \<Rightarrow> string \<Rightarrow> bool" where
  "has_plan ss serviceID planID =
     (\<exists>s\<in>set ss. Service.ID s = serviceID \<and> (\<exists>p\<in>set (Service.Plans s). Plan.ID p = planID))"

section \<open>Properties\<close>

subsection \<open>Bind\<close>

text \<open>
  C1, as the spec states it, fails: on the broker \<open>broker_up\<close>, whose store holds no
  record at all, \<open>Bind\<close> for the instance \<open>i1\<close> returns a binding and the error \<open>nil\<close>.
\<close>

theorem Bind_without_record_counterexample:
  "ledger (Vault broker_up) ''i1'' = None \<and>
   snd (snd (Bind broker_up ''i1'' ''b1'' ())) = None"
  by (simp add: Bind_def Vault_State_def broker_up_def vault_empty_def)

text \<open>
  C1, amended: for every instance that has no Operation Record in the Ledger, \<open>Bind\<close>
  returns a binding without credentials and no error, and leaves the broker as it was.
  The error of the Ledger read is dropped.
\<close>

theorem Bind_without_record:
  "ledger (Vault b) instanceID = None \<Longrightarrow>
   Bind b instanceID bindingID details = (b, \<lparr>Credentials = None\<rparr>, None)"
  by (simp add: Bind_def Vault_State_def)

theorem Bind_without_record_witness:
  "ledger (Vault (broker_up\<lparr>Vault := vault_sealed\<rparr>)) ''i2'' = None \<and>
   Bind (broker_up\<lparr>Vault := vault_sealed\<rparr>) ''i2'' ''b7'' True =
     (broker_up\<lparr>Vault := vault_sealed\<rparr>, \<lparr>Credentials = None\<rparr>, None)"
proof -
  have h: "ledger (Vault (broker_up\<lparr>Vault := vault_sealed\<rparr>)) ''i2'' = None"
    by (simp add: vault_sealed_def)
  from h Bind_without_record [OF h, of "''b7''" True] show ?thesis
    by simp
qed

subsection \<open>LastOperation\<close>



subsection \<open>Provision and Deprovision\<close>

text \<open>
  C3, as the spec states it, fails. With the plan in the catalog, a director that
  cannot be reached makes \<open>Provision\<close> return the error
  \<open>BOSH deployment manifest generation failed\<close>; that is the very error it returns when
  the director answers and the manifest cannot be generated. No error of its own stands
  for the unreachable director.
\<close>

theorem Provision_GetInfo_failure_counterexample:
  "snd (GetInfo (BOSH (broker_up\<lparr>BOSH := director_down\<rparr>))) =
     Some (Errorf ''connection refused'') \<and>
   snd (snd (Provision GenManifest_ok (broker_up\<lparr>BOSH := director_down\<rparr>) ''i1''
               details_s1_p1 True)) =
     Some (Errorf ''BOSH deployment manifest generation failed'') \<and>
   snd (GetInfo (BOSH broker_up)) = None \<and>
   snd (snd (Provision GenManifest_bad broker_up ''i1'' details_s1_p1 True)) =
     Some (Errorf ''BOSH deployment manifest generation failed'')"
  by (simp add: Provision_def FindPlan_def Sprintf_slash_def broker_up_def
      director_down_def director_up_def details_s1_p1_def GenManifest_ok_def
      GenManifest_bad_def)

text \<open>
  C3, amended: for every \<open>Provision\<close> call that finds its plan and in which the query
  for the director's metadata (\<open>GetInfo\<close>) fails, \<open>Provision\<close> returns the error
  \<open>BOSH deployment manifest generation failed\<close>, the error of a failed manifest
  generation, whatever the director's own error was; nothing is submitted and the
  Ledger is as before.
\<close>

theorem Provision_GetInfo_failure:
  "snd (FindPlan b (ProvisionDetails.ServiceID details) (ProvisionDetails.PlanID details)) = None \<Longrightarrow>
   snd (GetInfo (BOSH b)) = Some err \<Longrightarrow>
   Provision GenManifest b instanceID details asyncAllowed =
     (b, \<lparr>IsAsync = True\<rparr>, Some (Errorf ''BOSH deployment manifest generation failed''))"
  by (auto simp add: Provision_def Let_def split: prod.splits)

theorem Provision_GetInfo_failure_witness:
  "snd (FindPlan (broker_up\<lparr>BOSH := director_down\<rparr>) ''s1'' ''p1'') = None \<and>
   snd (GetInfo director_down) = Some (Errorf ''connection refused'') \<and>
   Provision GenManifest_bad (broker_up\<lparr>BOSH := director_down\<rparr>) ''i3'' details_s1_p1 False =
     (broker_up\<lparr>BOSH := director_down\<rparr>, \<lparr>IsAsync = True\<rparr>,
      Some (Errorf ''BOSH deployment manifest generation failed''))"
proof -
  let ?b = "broker_up\<lparr>BOSH := director_down\<rparr>"
  have plan: "snd (FindPlan ?b (ProvisionDetails.ServiceID details_s1_p1)
      (ProvisionDetails.PlanID details_s1_p1)) = None"
    by (simp add: FindPlan_def Sprintf_slash_def broker_up_def details_s1_p1_def)
  have info: "snd (GetInfo (BOSH ?b)) = Some (Errorf ''connection refused'')"
    by (simp add: director_down_def)
  from plan info Provision_GetInfo_failure [OF plan info, of GenManifest_bad "''i3''" False]
  show ?thesis
    by (simp add: details_s1_p1_def)
qed

text \<open>
  C4: a failed Ledger write is handled differently by the two flows. When \<open>Provision\<close>
  has found its plan, read the director's metadata, generated the manifest and
  submitted the deployment, and the Ledger write then fails, \<open>Provision\<close> returns the
  error \<open>Vault tracking failed\<close> (the spec's \<open>LedgerWriteFailed\<close>). When \<open>Deprovision\<close>
  has submitted the teardown and the Ledger write then fails, \<open>Deprovision\<close> returns
  \<open>true\<close> and no error.
\<close>

theorem Ledger_write_failure_asymmetry:
  "(FindPlan b (ProvisionDetails.ServiceID details) (ProvisionDetails.PlanID details) =
      (plan, None) \<and>
    GetInfo (BOSH b) = (info, None) \<and>
    GenManifest plan
      [''name'' \<mapsto> Plan.Name plan @ ''-'' @ instanceID, ''director_uuid'' \<mapsto> Info.UUID info] =
      (manifest, creds, None) \<and>
    CreateDeployment (BOSH b) manifest = (task, None) \<and>
    snd (Vault_Track (Vault b) instanceID ''provision'' (Task.ID task) creds) = Some err \<longrightarrow>
    snd (snd (Provision GenManifest b instanceID details asyncAllowed)) =
      Some (Errorf ''Vault tracking failed'')) \<and>
   (DeleteDeployment (BOSH b) instanceID = (task', None) \<and>
    snd (Vault_Track (Vault b) instanceID ''deprovision'' (Task.ID task') None) = Some err' \<longrightarrow>
    snd (Deprovision b instanceID details' asyncAllowed') = (True, None))"
  by (auto simp add: Provision_def Deprovision_def Let_def split: prod.splits)

theorem Ledger_write_failure_asymmetry_witness:
  "snd (Vault_Track vault_sealed ''i1'' ''provision'' ''t1'' (Some ''c1'')) =
     Some (Errorf ''vault is sealed'') \<and>
   snd (snd (Provision GenManifest_ok (broker_up\<lparr>Vault := vault_sealed\<rparr>) ''i1''
               details_s1_p1 True)) =
     Some (Errorf ''Vault tracking failed'') \<and>
   snd (Vault_Track vault_sealed ''i1'' ''deprovision'' ''t2'' None) =
     Some (Errorf ''vault is sealed'') \<and>
   snd (Deprovision (broker_up\<lparr>Vault := vault_sealed\<rparr>) ''i1'' details_teardown True) =
     (True, None)"
proof -
  let ?b = "broker_up\<lparr>Vault := vault_sealed\<rparr>"
  let ?t1 = "\<lparr>Task.ID = ''t1'', Task.State = ''queued''\<rparr>"
  let ?t2 = "\<lparr>Task.ID = ''t2'', Task.State = ''queued''\<rparr>"
  have plan: "FindPlan ?b (ProvisionDetails.ServiceID details_s1_p1)
      (ProvisionDetails.PlanID details_s1_p1) = (plan_small, None)"
    by (simp add: FindPlan_def Sprintf_slash_def broker_up_def details_s1_p1_def)
  have info: "GetInfo (BOSH ?b) = (\<lparr>Info.UUID = ''d1''\<rparr>, None)"
    by (simp add: broker_up_def director_up_def)
  have gen: "GenManifest_ok plan_small
      [''name'' \<mapsto> Plan.Name plan_small @ ''-'' @ ''i1'',
       ''director_uuid'' \<mapsto> Info.UUID \<lparr>Info.UUID = ''d1''\<rparr>] = (''manifest'', Some ''c1'', None)"
    by (simp add: GenManifest_ok_def)
  have create: "CreateDeployment (BOSH ?b) ''manifest'' = (?t1, None)"
    by (simp add: broker_up_def director_up_def)
  have delete: "DeleteDeployment (BOSH ?b) ''i1'' = (?t2, None)"
    by (simp add: broker_up_def director_up_def)
  have put1: "snd (Vault_Track (Vault ?b) ''i1'' ''provision'' (Task.ID ?t1) (Some ''c1'')) =
      Some (Errorf ''vault is sealed'')"
    by (simp add: Vault_Track_def vault_sealed_def)
  have put2: "snd (Vault_Track (Vault ?b) ''i1'' ''deprovision'' (Task.ID ?t2) None) =
      Some (Errorf ''vault is sealed'')"
    by (simp add: Vault_Track_def vault_sealed_def)
  from Ledger_write_failure_asymmetry
    [of ?b details_s1_p1 plan_small "\<lparr>Info.UUID = ''d1''\<rparr>" GenManifest_ok "''i1''"
        "''manifest''" "Some ''c1''" ?t1 "Errorf ''vault is sealed''" True ?t2
        "Errorf ''vault is sealed''" details_teardown True]
    plan info gen create delete put1 put2
  show ?thesis
    by simp
qed

text \<open>
  C5: for every \<open>Deprovision\<close> call in which the submission of the teardown to the
  director fails, the call returns the director's error, and the broker with its
  Ledger is as before: no record is written.
\<close>

theorem Deprovision_submission_failure:
  "snd (DeleteDeployment (BOSH b) instanceID) = Some err \<Longrightarrow>
   Deprovision b instanceID details asyncAllowed = (b, True, Some err)"
  by (auto simp add: Deprovision_def split: prod.splits)

theorem Deprovision_submission_failure_witness:
  "snd (DeleteDeployment director_down ''i1'') = Some (Errorf ''connection refused'') \<and>
   Deprovision (broker_up\<lparr>BOSH := director_down\<rparr>) ''i1'' details_teardown True =
     (broker_up\<lparr>BOSH := director_down\<rparr>, True, Some (Errorf ''connection refused''))"
proof -
  have h: "snd (DeleteDeployment (BOSH (broker_up\<lparr>BOSH := director_down\<rparr>)) ''i1'') =
      Some (Errorf ''connection refused'')"
    by (simp add: director_down_def)
  from h Deprovision_submission_failure [OF h, of details_teardown True] show ?thesis
    by simp
qed

text \<open>
  C9: on every return path of \<open>Provision\<close>, the five that return an error among them,
  the \<open>ProvisionedServiceSpec\<close> returned has \<open>IsAsync\<close> set.
\<close>

theorem Provision_IsAsync:
  "IsAsync (fst (snd (Provision GenManifest b instanceID details asyncAllowed))) = True"
  by (simp add: Provision_def Let_def split: prod.split)

subsection \<open>Update\<close>

text \<open>
  C8: for every instance, every update details and every \<open>asyncAllowed\<close> flag, \<open>Update\<close>
  returns the error \<open>not implemented\<close> (the spec's \<open>NotSupported\<close>) with the result
  \<open>false\<close>, and the broker, with its catalog, plans and secret store, is as before.
\<close>

theorem Update_not_supported:
  "Update b instanceID details asyncAllowed = (b, False, Some (Errorf ''not implemented''))"
  by (simp add: Update_def)

subsection \<open>The plan catalog\<close>

text \<open>
  C6: \<open>FindPlan\<close> looks the plan up under the key made of its first argument (the
  parameter \<open>planID\<close>), a \<open>/\<close> and its second argument (the parameter \<open>serviceID\<close>). It
  returns the plan stored under that key, and when none is stored there it fails with
  the error \<open>plan \<dots> not found\<close> (the spec's \<open>PlanNotFound\<close>).
\<close>

theorem FindPlan_key:
  "(Broker.Plans b (planID @ ''/'' @ serviceID) = Some plan \<longrightarrow>
      FindPlan b planID serviceID = (plan, None)) \<and>
   (Broker.Plans b (planID @ ''/'' @ serviceID) = None \<longrightarrow>
      FindPlan b planID serviceID =
        (zero_Plan, Some (Errorf (''plan '' @ planID @ ''/'' @ serviceID @ '' not found''))))"
  by (simp add: FindPlan_def Sprintf_slash_def)

theorem FindPlan_key_witness:
  "Broker.Plans broker_up ''s1/p1'' = Some plan_small \<and>
   FindPlan broker_up ''s1'' ''p1'' = (plan_small, None) \<and>
   Broker.Plans broker_up ''p1/s1'' = None \<and>
   FindPlan broker_up ''p1'' ''s1'' = (zero_Plan, Some (Errorf ''plan p1/s1 not found''))"
proof -
  have stored: "Broker.Plans broker_up (''s1'' @ ''/'' @ ''p1'') = Some plan_small"
    by (simp add: broker_up_def)
  have absent: "Broker.Plans broker_up (''p1'' @ ''/'' @ ''s1'') = None"
    by (simp add: broker_up_def)
  from FindPlan_key [of broker_up "''s1''" "''p1''" plan_small]
    FindPlan_key [of broker_up "''p1''" "''s1''"] stored absent
  show ?thesis
    by simp
qed

text \<open>The key made of two identifiers gives them back when the first holds no \<open>/\<close>.\<close>

lemma split_at_first:
  "x \<notin> set a \<Longrightarrow> x \<notin> set a' \<Longrightarrow> a @ x # b = a' @ x # b' \<Longrightarrow> a = a' \<and> b = b'"
proof (induction a arbitrary: a')
  case Nil
  then show ?case by (cases a') auto
next
  case (Cons y ys)
  then show ?case by (cases a') auto
qed

lemma Sprintf_slash_inject:
  assumes "CHR ''/'' \<notin> set a" and "CHR ''/'' \<notin> set a'"
  shows "Sprintf_slash a b = Sprintf_slash a' b' \<longleftrightarrow> a = a' \<and> b = b'"
  using assms split_at_first [of "CHR ''/''" a a' b b']
  by (auto simp add: Sprintf_slash_def)

text \<open>What the two loops of \<open>ReadServices\<close> leave under a key.\<close>

lemma track_plans_Some:
  "track_plans s ps m k = Some q \<Longrightarrow>
     m k = Some q \<or> (q \<in> set ps \<and> Sprintf_slash (Service.ID s) (Plan.ID q) = k)"
proof (induction ps arbitrary: m)
  case Nil
  then show ?case by simp
next
  case (Cons p ps)
  from Cons.prems
  have "track_plans s ps (m(Sprintf_slash (Service.ID s) (Plan.ID p) \<mapsto> p)) k = Some q"
    by simp
  then have "(m(Sprintf_slash (Service.ID s) (Plan.ID p) \<mapsto> p)) k = Some q \<or>
      (q \<in> set ps \<and> Sprintf_slash (Service.ID s) (Plan.ID q) = k)"
    by (rule Cons.IH)
  then show ?case by (auto split: if_splits)
qed

lemma track_plans_None:
  "track_plans s ps m k = None \<longleftrightarrow>
     m k = None \<and> (\<forall>p\<in>set ps. Sprintf_slash (Service.ID s) (Plan.ID p) \<noteq> k)"
  by (induction ps arbitrary: m) auto

lemma track_services_Some:
  "track_services ss m k = Some q \<Longrightarrow>
     m k = Some q \<or>
     (\<exists>s\<in>set ss. q \<in> set (Service.Plans s) \<and> Sprintf_slash (Service.ID s) (Plan.ID q) = k)"
proof (induction ss arbitrary: m)
  case Nil
  then show ?case by simp
next
  case (Cons s ss)
  from Cons.prems have "track_services ss (track_plans s (Service.Plans s) m) k = Some q"
    by simp
  then have "track_plans s (Service.Plans s) m k = Some q \<or>
      (\<exists>s\<in>set ss. q \<in> set (Service.Plans s) \<and> Sprintf_slash (Service.ID s) (Plan.ID q) = k)"
    by (rule Cons.IH)
  then show ?case
    by (auto dest: track_plans_Some)
qed

lemma track_services_None:
  "track_services ss m k = None \<longleftrightarrow>
     m k = None \<and>
     (\<forall>s\<in>set ss. \<forall>p\<in>set (Service.Plans s). Sprintf_slash (Service.ID s) (Plan.ID p) \<noteq> k)"
  by (induction ss arbitrary: m) (auto simp: track_plans_None)




subsection \<open>DeleteSchedule\<close>

text \<open>
  C7, as the spec states it, fails twice. On a server that knows the job,
  \<open>DeleteSchedule\<close> sends the removal of the target before the removal of the job. On a
  server whose lookup finds no job, \<open>DeleteSchedule\<close> returns the lookup's error.
\<close>

theorem DeleteSchedule_counterexample:
  "DeleteSchedule (client_of shield_found) ''i1'' details_teardown =
     ([FindJob_request \<lparr>Tenant.UUID = ''n1''\<rparr> ''name=jobs:s1:p1:i1'' False,
       DeleteTarget_request \<lparr>Tenant.UUID = ''n1''\<rparr> \<lparr>Target.UUID = ''g1''\<rparr>,
       DeleteJob_request \<lparr>Tenant.UUID = ''n1''\<rparr>
         \<lparr>Job.UUID = ''j1'', Job.Target = \<lparr>Target.UUID = []\<rparr>\<rparr>],
      Return None) \<and>
   DeleteSchedule (client_of shield_missing) ''i1'' details_teardown =
     ([FindJob_request \<lparr>Tenant.UUID = ''n1''\<rparr> ''name=jobs:s1:p1:i1'' False],
      Return (Some (Errorf ''no matching job found'')))"
  by (simp add: DeleteSchedule_def client_of_def shield_found_def shield_missing_def
      details_teardown_def)

text \<open>
  C7, amended: every \<open>DeleteSchedule\<close> call first looks the job up by its name
  \<open>jobs:serviceID:planID:instanceID\<close>. When the lookup fails, as it does when no job
  has the name, the call returns the lookup's error and removes nothing. When the
  lookup gives a job, the call removes the job's target first and the job second: if
  the removal of the target fails, the call returns that error and the job is not
  removed; otherwise it returns what the removal of the job returns.
\<close>

theorem DeleteSchedule_order:
  "(FindJob (shield cli) (tenant cli)
      (''name='' @ join [''jobs'', DeprovisionDetails.ServiceID details,
                         DeprovisionDetails.PlanID details, instanceID]) False = (found, Some err) \<longrightarrow>
    DeleteSchedule cli instanceID details =
      ([FindJob_request (tenant cli)
          (''name='' @ join [''jobs'', DeprovisionDetails.ServiceID details,
                             DeprovisionDetails.PlanID details, instanceID]) False],
       Return (Some err))) \<and>
   (FindJob (shield cli) (tenant cli)
      (''name='' @ join [''jobs'', DeprovisionDetails.ServiceID details,
                         DeprovisionDetails.PlanID details, instanceID]) False = (Some job, None) \<and>
    DeleteTarget (shield cli) (tenant cli) \<lparr>Target.UUID = Target.UUID (Job.Target job)\<rparr> =
      Some err \<longrightarrow>
    DeleteSchedule cli instanceID details =
      ([FindJob_request (tenant cli)
          (''name='' @ join [''jobs'', DeprovisionDetails.ServiceID details,
                             DeprovisionDetails.PlanID details, instanceID]) False,
        DeleteTarget_request (tenant cli) \<lparr>Target.UUID = Target.UUID (Job.Target job)\<rparr>],
       Return (Some err))) \<and>
   (FindJob (shield cli) (tenant cli)
      (''name='' @ join [''jobs'', DeprovisionDetails.ServiceID details,
                         DeprovisionDetails.PlanID details, instanceID]) False = (Some job, None) \<and>
    DeleteTarget (shield cli) (tenant cli) \<lparr>Target.UUID = Target.UUID (Job.Target job)\<rparr> =
      None \<longrightarrow>
    DeleteSchedule cli instanceID details =
      ([FindJob_request (tenant cli)
          (''name='' @ join [''jobs'', DeprovisionDetails.ServiceID details,
                             DeprovisionDetails.PlanID details, instanceID]) False,
        DeleteTarget_request (tenant cli) \<lparr>Target.UUID = Target.UUID (Job.Target job)\<rparr>,
        DeleteJob_request (tenant cli)
          \<lparr>Job.UUID = Job.UUID job, Job.Target = \<lparr>Target.UUID = []\<rparr>\<rparr>],
       Return (DeleteJob (shield cli) (tenant cli)
                 \<lparr>Job.UUID = Job.UUID job, Job.Target = \<lparr>Target.UUID = []\<rparr>\<rparr>)))"
  by (simp add: DeleteSchedule_def Let_def)

theorem DeleteSchedule_order_witness:
  "DeleteSchedule (client_of shield_missing) ''i2'' details_teardown =
     ([FindJob_request \<lparr>Tenant.UUID = ''n1''\<rparr> ''name=jobs:s1:p1:i2'' False],
      Return (Some (Errorf ''no matching job found''))) \<and>
   DeleteSchedule (client_of shield_keeps_target) ''i2'' details_teardown =
     ([FindJob_request \<lparr>Tenant.UUID = ''n1''\<rparr> ''name=jobs:s1:p1:i2'' False,
       DeleteTarget_request \<lparr>Tenant.UUID = ''n1''\<rparr> \<lparr>Target.UUID = ''g1''\<rparr>],
      Return (Some (Errorf ''target is in use''))) \<and>
   DeleteSchedule (client_of shield_found) ''i2'' details_teardown =
     ([FindJob_request \<lparr>Tenant.UUID = ''n1''\<rparr> ''name=jobs:s1:p1:i2'' False,
       DeleteTarget_request \<lparr>Tenant.UUID = ''n1''\<rparr> \<lparr>Target.UUID = ''g1''\<rparr>,
       DeleteJob_request \<lparr>Tenant.UUID = ''n1''\<rparr>
         \<lparr>Job.UUID = ''j1'', Job.Target = \<lparr>Target.UUID = []\<rparr>\<rparr>],
      Return None)"
proof -
  let ?job = "\<lparr>Job.UUID = ''j1'', Job.Target = \<lparr>Target.UUID = ''g1''\<rparr>\<rparr>"
  let ?q = "''name='' @ join [''jobs'', DeprovisionDetails.ServiceID details_teardown,
      DeprovisionDetails.PlanID details_teardown, ''i2'']"
  have missing: "FindJob (shield (client_of shield_missing)) (tenant (client_of shield_missing))
      ?q False = (None, Some (Errorf ''no matching job found''))"
    by (simp add: client_of_def shield_missing_def)
  have kept: "FindJob (shield (client_of shield_keeps_target))
      (tenant (client_of shield_keeps_target)) ?q False = (Some ?job, None)"
    "DeleteTarget (shield (client_of shield_keeps_target))
      (tenant (client_of shield_keeps_target)) \<lparr>Target.UUID = Target.UUID (Job.Target ?job)\<rparr> =
      Some (Errorf ''target is in use'')"
    by (simp_all add: client_of_def shield_keeps_target_def)
  have found: "FindJob (shield (client_of shield_found)) (tenant (client_of shield_found))
      ?q False = (Some ?job, None)"
    "DeleteTarget (shield (client_of shield_found)) (tenant (client_of shield_found))
      \<lparr>Target.UUID = Target.UUID (Job.Target ?job)\<rparr> = None"
    "DeleteJob (shield (client_of shield_found)) (tenant (client_of shield_found))
      \<lparr>Job.UUID = Job.UUID ?job, Job.Target = \<lparr>Target.UUID = []\<rparr>\<rparr> = None"
    by (simp_all add: client_of_def shield_found_def)
  have tenant: "tenant (client_of c) = \<lparr>Tenant.UUID = ''n1''\<rparr>" for c
    by (simp add: client_of_def)
  from DeleteSchedule_order [of "client_of shield_missing" details_teardown "''i2''" None
      "Errorf ''no matching job found''"] missing
  have 1: "DeleteSchedule (client_of shield_missing) ''i2'' details_teardown =
     ([FindJob_request \<lparr>Tenant.UUID = ''n1''\<rparr> ''name=jobs:s1:p1:i2'' False],
      Return (Some (Errorf ''no matching job found'')))"
    by (simp add: tenant details_teardown_def)
  from DeleteSchedule_order [of "client_of shield_keeps_target" details_teardown "''i2''" _
      "Errorf ''target is in use''" ?job] kept
  have 2: "DeleteSchedule (client_of shield_keeps_target) ''i2'' details_teardown =
     ([FindJob_request \<lparr>Tenant.UUID = ''n1''\<rparr> ''name=jobs:s1:p1:i2'' False,
       DeleteTarget_request \<lparr>Tenant.UUID = ''n1''\<rparr> \<lparr>Target.UUID = ''g1''\<rparr>],
      Return (Some (Errorf ''target is in use'')))"
    by (simp add: tenant details_teardown_def)
  from DeleteSchedule_order [of "client_of shield_found" details_teardown "''i2''" _ _ ?job] found
  have 3: "DeleteSchedule (client_of shield_found) ''i2'' details_teardown =
     ([FindJob_request \<lparr>Tenant.UUID = ''n1''\<rparr> ''name=jobs:s1:p1:i2'' False,
       DeleteTarget_request \<lparr>Tenant.UUID = ''n1''\<rparr> \<lparr>Target.UUID = ''g1''\<rparr>,
       DeleteJob_request \<lparr>Tenant.UUID = ''n1''\<rparr>
         \<lparr>Job.UUID = ''j1'', Job.Target = \<lparr>Target.UUID = []\<rparr>\<rparr>],
      Return None)"
    by (simp add: tenant details_teardown_def)
  from 1 2 3 show ?thesis
    by simp
qed

end
